theory Spec2Isabelle
  imports Complex_Main "HOL-Library.Log_Nat"
begin

section \<open>Exceptions (exceptions.py)\<close>

text \<open>
  Every exception class of the program derives from \<open>Exception\<close>: \<open>SafetyExit\<close> and
  \<open>CaptureError\<close> through \<open>MapScannerError\<close>. \<open>AttributeError\<close>, \<open>TypeError\<close> and \<open>KeyError\<close>
  are Python's own. \<open>LibraryError\<close> stands for whatever a call into pyautogui, numpy or
  OpenCV raises; those libraries do not know the program's own classes, and a call into
  them is modelled by its outcome, \<open>Inl\<close> of the message when it raises (\<open>lib\<close> below).
  Signals arriving during a call are outside the model.
  Each constructor carries the message that \<open>str(e)\<close> returns.
\<close>

datatype py_error =
    SafetyExit string
  | CaptureError string
  | CalibrationError string
  | AttributeError string
  | TypeError string
  | KeyError string
  | LibraryError string

fun str :: "py_error \<Rightarrow> string" where
  "str (SafetyExit m) = m"
| "str (CaptureError m) = m"
| "str (CalibrationError m) = m"
| "str (AttributeError m) = m"
| "str (TypeError m) = m"
| "str (KeyError m) = m"
| "str (LibraryError m) = m"

text \<open>Sequencing of two steps of which the first may raise.\<close>

definition py_bind :: "py_error + 'a \<Rightarrow> ('a \<Rightarrow> py_error + 'b) \<Rightarrow> py_error + 'b" where
  "py_bind m f = (case m of Inl e \<Rightarrow> Inl e | Inr v \<Rightarrow> f v)"

definition lib :: "string + 'a \<Rightarrow> py_error + 'a" where
  "lib outcome = (case outcome of Inl msg \<Rightarrow> Inl (LibraryError msg) | Inr v \<Rightarrow> Inr v)"

section \<open>Floats\<close>

text \<open>
  A Python float is an IEEE 754 binary64 number; a finite one is modelled by the rational
  number it denotes (infinities, NaN, overflow and subnormal numbers are left out).
  Storing, passing on and comparing floats is exact. Where the program computes with
  floats the arithmetic is a parameter: \<open>exact\<close> computes without rounding, \<open>binary64\<close>
  rounds every result to the nearest number with a 53-bit mantissa, ties to the even
  mantissa, as CPython does. \<open>float_of\<close> is the value of a decimal literal or of an integer
  taken as a float.

  \<open>exponent x\<close>, for positive \<open>x\<close>, is the \<open>e\<close> with \<open>2 powi e \<le> x < 2 powi (e + 1)\<close>: with \<open>x\<close>
  the fraction \<open>p / q\<close> it is the difference of the bit lengths of \<open>p\<close> and \<open>q\<close>, or one less.
\<close>

type_synonym py_float = rat








section \<open>Configuration (config.py)\<close>

text \<open>
  The configuration classes are namespaces of class attributes. Each is modelled as the
  table of the attributes its class body assigns, in the order of the source, and
  \<open>getattr\<close> is Python's attribute lookup on the class object: an attribute the class body
  does not assign raises \<open>AttributeError\<close>. \<open>PyFloat\<close> holds a float literal as written.
\<close>

datatype py_value =
    PyInt int
  | PyFloat rat
  | PyTuple "py_value list"
  | PyList "py_value list"
  | PyDict "(string \<times> py_value) list"

record py_class =
  class_name :: string
  attributes :: "(string \<times> py_value) list"

definition CaptureConfig :: py_class where
  "CaptureConfig = \<lparr>class_name = ''CaptureConfig'', attributes =
     [(''DEFAULT_CAPTURE_SIZE'', PyTuple [PyInt 500, PyInt 400]),
      (''BASE_STEP_SIZE'', PyInt 900),
      (''TARGET_OVERLAP_PERCENT'', PyInt 15),
      (''MOVEMENT_DELAY'', PyFloat 0.3),
      (''SETTLE_DELAY'', PyFloat 0.5),
      (''ZOOM_DELAY'', PyFloat 0.5),
      (''POST_DRAG_PAUSE_RANGE'', PyTuple [PyFloat 0.1, PyFloat 0.3]),
      (''MAX_COLUMNS_PER_ROW'', PyInt 100),
      (''MAX_ROWS_TOTAL'', PyInt 50),
      (''MAX_CORNER_SEARCH_ATTEMPTS'', PyInt 200),
      (''DURATION_VARIANCE_RANGE'', PyTuple [PyFloat 0.8, PyFloat 1.2]),
      (''POSITION_VARIANCE_RANGE'', PyTuple [PyFloat 0.98, PyFloat 1.02])]\<rparr>"

definition ScanConfig :: py_class where
  "ScanConfig = \<lparr>class_name = ''ScanConfig'', attributes =
     [(''DEFAULT_MAX_ROWS'', PyInt 20),
      (''SIMILARITY_THRESHOLD'', PyFloat 98.0),
      (''QUALITY_WEIGHTS'', PyDict
         [(''confidence'', PyFloat 0.3), (''size'', PyFloat 0.2),
          (''count'', PyFloat 0.2), (''readability'', PyFloat 0.3)]),
      (''ZOOM_LEVELS_TO_TEST'', PyList
         [PyTuple [PyInt 1, PyInt 2], PyTuple [PyInt 2, PyInt 2], PyTuple [PyInt 3, PyInt 2],
          PyTuple [PyInt (- 1), PyInt 2], PyTuple [PyInt (- 2), PyInt 2],
          PyTuple [PyInt (- 3), PyInt 2]])]\<rparr>"

text \<open>
  Of \<open>OCRConfig\<close> only the numeric attributes are listed; the two tables of Tesseract
  option strings and strategy names are read by the OCR engine alone, which is not
  modelled.
\<close>

definition OCRConfig :: py_class where
  "OCRConfig = \<lparr>class_name = ''OCRConfig'', attributes =
     [(''MIN_TEXT_LENGTH'', PyInt 2),
      (''MIN_CONFIDENCE_THRESHOLD'', PyInt 20),
      (''MIN_QUALITY_THRESHOLD'', PyInt 25),
      (''CLAHE_CLIP_LIMIT'', PyFloat 3.0),
      (''CLAHE_TILE_GRID_SIZE'', PyTuple [PyInt 8, PyInt 8]),
      (''BILATERAL_FILTER_PARAMS'', PyTuple [PyInt 9, PyInt 75, PyInt 75]),
      (''GAUSSIAN_BLUR_KERNEL'', PyTuple [PyInt 3, PyInt 3]),
      (''MORPHOLOGY_KERNEL_SIZE'', PyTuple [PyInt 2, PyInt 2])]\<rparr>"

definition getattr :: "py_class \<Rightarrow> string \<Rightarrow> py_error + py_value" where
  "getattr cls attr =
     (case map_of (attributes cls) attr of
        Some v \<Rightarrow> Inr v
      | None \<Rightarrow> Inl (AttributeError (''type object '' @ [CHR 0x27] @ class_name cls @ [CHR 0x27]
                         @ '' has no attribute '' @ [CHR 0x27] @ attr @ [CHR 0x27])))"

text \<open>
  \<open>a < b\<close> between a float and a configuration value, and the readers for the attribute
  shapes the program uses. A value of another shape raises \<open>TypeError\<close>.
\<close>

definition float_less :: "py_float \<Rightarrow> py_value \<Rightarrow> py_error + bool" where
  "float_less a b =
     (case b of PyFloat r \<Rightarrow> Inr (a < r) | PyInt i \<Rightarrow> Inr (a < of_int i)
      | _ \<Rightarrow> Inl (TypeError ''unsupported operand''))"

definition float_ge :: "py_float \<Rightarrow> py_value \<Rightarrow> py_error + bool" where
  "float_ge a b =
     (case b of PyFloat r \<Rightarrow> Inr (a \<ge> r) | PyInt i \<Rightarrow> Inr (a \<ge> of_int i)
      | _ \<Rightarrow> Inl (TypeError ''unsupported operand''))"

definition as_int :: "py_value \<Rightarrow> py_error + int" where
  "as_int v = (case v of PyInt i \<Rightarrow> Inr i | _ \<Rightarrow> Inl (TypeError ''not an integer''))"

fun as_pairs :: "py_value list \<Rightarrow> py_error + (int \<times> int) list" where
  "as_pairs [] = Inr []"
| "as_pairs (PyTuple [PyInt a, PyInt b] # vs) = py_bind (as_pairs vs) (\<lambda>ps. Inr ((a, b) # ps))"
| "as_pairs (v # vs) = Inl (TypeError ''cannot unpack'')"

definition as_pair_list :: "py_value \<Rightarrow> py_error + (int \<times> int) list" where
  "as_pair_list v = (case v of PyList vs \<Rightarrow> as_pairs vs | _ \<Rightarrow> Inl (TypeError ''not iterable''))"

section \<open>Utility functions (utils.py)\<close>

subsection \<open>safe\_clamp\<close>

definition safe_clamp :: "int \<Rightarrow> int \<Rightarrow> int \<Rightarrow> int" where
  "safe_clamp val min_val max_val = max min_val (min val max_val)"

subsection \<open>Python string operations\<close>

text \<open>
  A string is a list of characters; a \<open>char\<close> is read as the code point of the same
  number (0 to 255). \<open>isspace\<close> lists the code points in that range for which Python's
  \<open>str.isspace\<close> holds; \<open>str.strip()\<close> and \<open>str.split()\<close> without arguments use it.
  \<open>lower\<close> maps the upper-case letters of that range (\<open>A\<close> to \<open>Z\<close> and 192 to 222 but
  215) to the code point 32 above.
\<close>

definition isspace :: "char \<Rightarrow> bool" where
  "isspace c = (of_char c \<in> set [9, 10, 11, 12, 13, 28, 29, 30, 31, 32, 133, 160 :: nat])"

definition lower_char :: "char \<Rightarrow> char" where
  "lower_char c =
     (let n = of_char c :: nat
      in if (65 \<le> n \<and> n \<le> 90) \<or> (192 \<le> n \<and> n \<le> 222 \<and> n \<noteq> 215)
         then char_of (n + 32) else c)"

definition lower :: "string \<Rightarrow> string" where
  "lower s = map lower_char s"

definition strip :: "string \<Rightarrow> string" where
  "strip s = rev (dropWhile isspace (rev (dropWhile isspace s)))"

text \<open>\<open>s.split()\<close>: the maximal runs of non-whitespace characters, in order.\<close>

fun split_from :: "string \<Rightarrow> string \<Rightarrow> string list" where
  "split_from cur [] = (if cur = [] then [] else [cur])"
| "split_from cur (c # cs) =
     (if isspace c then (if cur = [] then split_from [] cs else cur # split_from [] cs)
      else split_from (cur @ [c]) cs)"

definition split :: "string \<Rightarrow> string list" where
  "split s = split_from [] s"

text \<open>\<open>t in s\<close> for strings: \<open>t\<close> occurs in \<open>s\<close> as a contiguous substring.\<close>

fun contains :: "string \<Rightarrow> string \<Rightarrow> bool" where
  "contains [] t = (t = [])"
| "contains (c # cs) t = (take (length t) (c # cs) = t \<or> contains cs t)"

subsection \<open>extract\_player\_name\_from\_alliance\_tag\<close>

text \<open>
  The five regular expressions are all anchored with \<open>^\<close> (no MULTILINE flag), so
  \<open>re.sub\<close> replaces at most one match, at position 0. \<open>.*?\<close> is lazy and \<open>.\<close> matches
  every character but the newline, so
  \<^item> \<open>^\[.*?\]\<close> (and likewise for the other three bracket pairs) matches when the text
    starts with the opening bracket and the first closing bracket after it is reached
    without crossing a newline; the match ends at that closing bracket;
  \<^item> \<open>^.*?\|\<close> matches when the first \<open>|\<close> of the text is reached without crossing a
    newline; the match ends at that \<open>|\<close>.
  \<open>re_match\<close> returns the length of the match.
\<close>

datatype pattern = Bracketed char char | UpTo char

definition patterns :: "pattern list" where
  "patterns = [Bracketed CHR ''['' CHR '']'', Bracketed CHR ''('' CHR '')'',
               Bracketed CHR ''{'' CHR ''}'', Bracketed CHR ''<'' CHR ''>'', UpTo CHR ''|'']"

definition lazy_up_to :: "char \<Rightarrow> string \<Rightarrow> nat option" where
  "lazy_up_to cl s =
     (let body = takeWhile (\<lambda>c. c \<noteq> cl) s
      in if length body < length s \<and> CHR 0x0A \<notin> set body then Some (Suc (length body))
         else None)"

fun re_match :: "pattern \<Rightarrow> string \<Rightarrow> nat option" where
  "re_match (UpTo cl) s = lazy_up_to cl s"
| "re_match (Bracketed opn cl) [] = None"
| "re_match (Bracketed opn cl) (c # cs) =
     (if c = opn then map_option Suc (lazy_up_to cl cs) else None)"

definition re_sub :: "pattern \<Rightarrow> string \<Rightarrow> string" where
  "re_sub p s = (case re_match p s of None \<Rightarrow> s | Some n \<Rightarrow> drop n s)"

text \<open>
  The \<open>for\<close> loop runs once over the five patterns, in order; each iteration substitutes
  and then strips. The result falls back to the input when nothing is left.
\<close>

definition extract_player_name_from_alliance_tag :: "string \<Rightarrow> string" where
  "extract_player_name_from_alliance_tag text =
     (let cleaned_text = foldl (\<lambda>cleaned p. strip (re_sub p cleaned)) text patterns
      in if cleaned_text \<noteq> [] then cleaned_text else text)"

subsection \<open>calculate\_quality\_score\<close>





section \<open>Screen capture (screen\_capture.py)\<close>

text \<open>
  A frame is a raster of rows of pixels, each pixel a list of channel values.
  The fields of \<open>ScreenCapture\<close> are those set by its constructor; the effective game
  area is \<open>None\<close> until \<open>set_effective_area\<close> is called.
\<close>

type_synonym frame = "nat list list list"

record ScreenCapture =
  center_x :: int
  center_y :: int
  capture_size :: "int \<times> int"
  effective_game_area :: "(int \<times> int \<times> int \<times> int) option"

definition set_effective_area ::
  "ScreenCapture \<Rightarrow> int \<times> int \<times> int \<times> int \<Rightarrow> ScreenCapture" where
  "set_effective_area self effective_area = self\<lparr>effective_game_area := Some effective_area\<rparr>"

definition update_center :: "ScreenCapture \<Rightarrow> int \<Rightarrow> int \<Rightarrow> ScreenCapture" where
  "update_center self cx cy = self\<lparr>center_x := cx, center_y := cy\<rparr>"

text \<open>
  \<open>_calculate_capture_coordinates\<close>. Python's \<open>//\<close> on integers is floor division, which
  is \<open>div\<close> on \<open>int\<close>. A 4-tuple is truthy, so the \<open>if\<close> tests for \<open>None\<close> only.
\<close>

definition calculate_capture_coordinates :: "ScreenCapture \<Rightarrow> int \<times> int" where
  "calculate_capture_coordinates self =
     (let x = center_x self - fst (capture_size self) div 2;
          y = center_y self - snd (capture_size self) div 2
      in case effective_game_area self of
           None \<Rightarrow> (x, y)
         | Some (eff_x, eff_y, eff_width, eff_height) \<Rightarrow>
             (safe_clamp x eff_x (eff_x + eff_width - fst (capture_size self)),
              safe_clamp y eff_y (eff_y + eff_height - snd (capture_size self))))"

text \<open>
  \<open>capture_screen\<close>. The parameter \<open>screenshot\<close> is the outcome of
  \<open>np.array(pyautogui.screenshot(region=...))\<close> for the region asked. The result type
  keeps the \<open>Optional\<close> of the signature: \<open>Inr None\<close> would be a returned \<open>None\<close>.
\<close>

definition capture_screen ::
  "ScreenCapture \<Rightarrow> (int \<times> int \<times> int \<times> int \<Rightarrow> string + frame) \<Rightarrow> bool
     \<Rightarrow> py_error + frame option" where
  "capture_screen self screenshot running_flag =
     (case (if \<not> running_flag then Inl (SafetyExit ''Capture stopped'')
            else (let (x, y) = calculate_capture_coordinates self
                  in py_bind
                       (lib (screenshot (x, y, fst (capture_size self), snd (capture_size self))))
                       (\<lambda>arr. Inr (Some arr))))
      of Inr r \<Rightarrow> Inr r
       | Inl (SafetyExit m) \<Rightarrow> Inl (SafetyExit m)
       | Inl e \<Rightarrow> Inl (CaptureError (''Screen capture failed: '' @ str e)))"

text \<open>
  \<open>detect_movement\<close>. The two OpenCV calls are parameters: \<open>cvtColor\<close> is the conversion
  to grayscale, \<open>matchTemplate\<close> the entry \<open>[0][0]\<close> of the normalized cross-correlation.
  The second component of the result is the info string: \<open>Similar p\<close> stands for the
  formatted text of \<open>p\<close> followed by \<open>% similar\<close>. The product \<open>correlation * 100\<close> is
  taken exactly.
\<close>

record cv2 =
  cvtColor :: "frame \<Rightarrow> string + nat list list"
  matchTemplate :: "nat list list \<Rightarrow> nat list list \<Rightarrow> string + py_float"

datatype info = Msg string | Similar py_float

definition detect_movement :: "cv2 \<Rightarrow> frame option \<Rightarrow> frame option \<Rightarrow> bool \<times> info" where
  "detect_movement cv before_image after_image =
     (case (case (before_image, after_image) of
              (Some before_arr, Some after_arr) \<Rightarrow>
                py_bind (lib (cvtColor cv before_arr)) (\<lambda>before_gray.
                py_bind (lib (cvtColor cv after_arr)) (\<lambda>after_gray.
                py_bind (lib (matchTemplate cv before_gray after_gray)) (\<lambda>correlation.
                  let similarity_percentage = correlation * 100
                  in py_bind (getattr CaptureConfig ''SIMILARITY_THRESHOLD'') (\<lambda>threshold.
                     py_bind (float_less similarity_percentage threshold) (\<lambda>movement_detected.
                       Inr (movement_detected, Similar similarity_percentage))))))
            | _ \<Rightarrow> Inr (False, Msg ''Invalid images provided''))
      of Inr r \<Rightarrow> r
       | Inl e \<Rightarrow> (False, Msg (str e)))"

section \<open>Mouse controller (mouse\_controller.py)\<close>

text \<open>
  Each operation checks the running flag, then calls into pyautogui; the outcome of those
  calls is a parameter. \<open>SafetyExit\<close> is re-raised, any other exception gives \<open>False\<close>.
  \<open>zoom_control\<close> also returns the list of \<open>pyautogui.scroll\<close> calls it made. The target
  coordinates and the duration of \<open>safe_move_mouse\<close> have no part in the outcome and are
  left out; the random variance, the clamping of the drag target and the pauses of
  \<open>safe_drag\<close> are part of the outcome \<open>drag\<close>.
\<close>

definition safe_move_mouse :: "string + unit \<Rightarrow> bool \<Rightarrow> py_error + bool" where
  "safe_move_mouse moveTo running_flag =
     (case (if \<not> running_flag then Inl (SafetyExit ''Mouse movement stopped'')
            else py_bind (lib moveTo) (\<lambda>_. Inr True))
      of Inr r \<Rightarrow> Inr r
       | Inl (SafetyExit m) \<Rightarrow> Inl (SafetyExit m)
       | Inl e \<Rightarrow> Inr False)"

definition safe_drag :: "string + unit \<Rightarrow> int \<Rightarrow> int \<Rightarrow> py_float \<Rightarrow> bool \<Rightarrow> py_error + bool" where
  "safe_drag drag dx dy duration running_flag =
     (case (if \<not> running_flag then Inl (SafetyExit ''Drag operation stopped'')
            else py_bind (lib drag) (\<lambda>_.
                   if \<not> running_flag
                   then Inl (SafetyExit ''Drag operation stopped during settlement'')
                   else Inr True))
      of Inr r \<Rightarrow> Inr r
       | Inl (SafetyExit m) \<Rightarrow> Inl (SafetyExit m)
       | Inl e \<Rightarrow> Inr False)"

definition zoom_control :: "string + unit \<Rightarrow> int \<Rightarrow> bool \<Rightarrow> py_error + (bool \<times> int list)" where
  "zoom_control scroll clicks running_flag =
     (if \<not> running_flag then Inl (SafetyExit ''Zoom operation stopped'')
      else case scroll of Inr _ \<Rightarrow> Inr (True, [clicks]) | Inl msg \<Rightarrow> Inr (False, [clicks]))"

section \<open>Capture, drag, capture, compare (screen\_capture.py)\<close>

text \<open>
  \<open>capture_and_detect_movement\<close>. \<open>io\<close> holds the outcomes of the three calls into
  pyautogui, in the order they are made. \<open>safe_drag\<close> is called without a running flag,
  so its default \<open>True\<close> applies. The whole body stands in a \<open>try\<close> whose handler is
  \<open>except Exception\<close>.
\<close>

record io =
  screenshot_before :: "int \<times> int \<times> int \<times> int \<Rightarrow> string + frame"
  drag :: "string + unit"
  screenshot_after :: "int \<times> int \<times> int \<times> int \<Rightarrow> string + frame"

definition capture_and_detect_movement ::
  "ScreenCapture \<Rightarrow> cv2 \<Rightarrow> io \<Rightarrow> int \<Rightarrow> int \<Rightarrow> py_float \<Rightarrow> bool \<Rightarrow> bool \<times> info" where
  "capture_and_detect_movement self cv io dx dy duration running_flag =
     (case py_bind (capture_screen self (screenshot_before io) running_flag) (\<lambda>before_img.
             if before_img = None then Inr (False, Msg ''Could not capture before image'')
             else py_bind (safe_drag (drag io) dx dy duration True) (\<lambda>dragged.
               if \<not> dragged then Inr (False, Msg ''Drag operation failed'')
               else py_bind (capture_screen self (screenshot_after io) running_flag) (\<lambda>after_img.
                 if after_img = None then Inr (False, Msg ''Could not capture after image'')
                 else Inr (detect_movement cv before_img after_img))))
      of Inr r \<Rightarrow> r
       | Inl e \<Rightarrow> (False, Msg (str e)))"

section \<open>Target matching (map\_scanner.py, search\_for\_targets)\<close>

text \<open>
  \<open>ocr_results\<close> holds the two entries of the dictionary returned by
  \<open>OCREngine.extract_text_comprehensive\<close> that \<open>search_for_targets\<close> reads. The OCR run
  itself is a call into Tesseract; its result is a parameter of the model.
  A match is the dictionary built for a found target; the key \<open>matched_word\<close> is
  present for word matches only.
\<close>

record ocr_results =
  best_text :: string
  best_confidence :: py_float

record target_match =
  name :: string
  detected_text :: string
  matched_word :: "string option"
  match_type :: string
  confidence :: py_float
  ocr_strategy :: string

text \<open>The inner \<open>for word in words\<close> loop: the first word that matches, if any.\<close>

fun first_matching_word :: "string \<Rightarrow> string \<Rightarrow> string list \<Rightarrow> string option" where
  "first_matching_word target_lower target_without_tags [] = None"
| "first_matching_word target_lower target_without_tags (word # words) =
     (let word_without_tags = lower (extract_player_name_from_alliance_tag word)
      in if target_lower = lower word \<or> target_lower = word_without_tags \<or>
            target_without_tags = lower word \<or> target_without_tags = word_without_tags
         then Some word
         else first_matching_word target_lower target_without_tags words)"

text \<open>
  The body of the outer loop for one target name: the dictionary it appends to
  \<open>found_targets\<close>, or nothing.
\<close>

definition match_target :: "ocr_results \<Rightarrow> string \<Rightarrow> string \<Rightarrow> target_match option" where
  "match_target results detected target_name =
     (let target_lower = lower target_name;
          target_without_tags = lower (extract_player_name_from_alliance_tag target_name)
      in if contains detected target_lower
         then Some \<lparr>name = target_name, detected_text = best_text results,
                    matched_word = None, match_type = ''exact_full'',
                    confidence = best_confidence results, ocr_strategy = ''comprehensive''\<rparr>
         else case first_matching_word target_lower target_without_tags (split detected) of
                None \<Rightarrow> None
              | Some word \<Rightarrow>
                  Some \<lparr>name = target_name, detected_text = best_text results,
                        matched_word = Some word, match_type = ''exact_word'',
                        confidence = best_confidence results,
                        ocr_strategy = ''comprehensive''\<rparr>)"

fun find_targets ::
  "ocr_results \<Rightarrow> string \<Rightarrow> string list \<Rightarrow> target_match list \<Rightarrow> target_match list" where
  "find_targets results detected [] found_targets = found_targets"
| "find_targets results detected (target_name # rest) found_targets =
     (case match_target results detected target_name of
        None \<Rightarrow> find_targets results detected rest found_targets
      | Some m \<Rightarrow> find_targets results detected rest (found_targets @ [m]))"

text \<open>
  Python's \<open>max(xs, key=f)\<close> on a non-empty list: the running best is replaced only by
  an element whose key is strictly greater, so the first of several maxima wins.
\<close>

fun max_by :: "('a \<Rightarrow> py_float) \<Rightarrow> 'a \<Rightarrow> 'a list \<Rightarrow> 'a" where
  "max_by key best [] = best"
| "max_by key best (x # xs) = (if key x > key best then max_by key x xs else max_by key best xs)"

definition search_for_targets ::
  "ocr_results \<Rightarrow> frame option \<Rightarrow> string list \<Rightarrow> bool \<times> target_match option" where
  "search_for_targets results img target_names =
     (case img of
        None \<Rightarrow> (False, None)
      | Some _ \<Rightarrow>
          if best_text results = [] then (False, None)
          else (case find_targets results (lower (best_text results)) target_names [] of
                  [] \<Rightarrow> (False, None)
                | m # ms \<Rightarrow> (True, Some (max_by confidence m ms))))"

section \<open>Scan orchestrator (map\_scanner.py)\<close>

text \<open>
  \<open>MapScanner\<close> drives its collaborators in loops. What the window manager, pyautogui and
  the OCR engine answer is read from an environment: \<open>window_valid i\<close> is the answer of
  \<open>is_window_valid()\<close> in iteration \<open>i\<close> of the loop at hand, \<open>moved i dx dy\<close> the first
  component of what \<open>screen_capture.capture_and_detect_movement\<close> returns in iteration \<open>i\<close>
  for the drag \<open>(dx, dy)\<close>, \<open>scroll i\<close> and \<open>screenshot i\<close> the outcomes of the pyautogui calls
  of iteration \<open>i\<close> of the zoom test loop, and \<open>evaluate_quality\<close> the score the OCR engine
  gives an image. \<open>running\<close> is the field \<open>self.running\<close>.
\<close>

record scanner_env =
  running :: bool
  moveTo :: "string + unit"
  window_valid :: "nat \<Rightarrow> bool"
  moved :: "nat \<Rightarrow> int \<Rightarrow> int \<Rightarrow> bool"
  scroll :: "nat \<Rightarrow> string + unit"
  scroll_reset :: "string + unit"
  scroll_apply :: "string + unit"
  screenshot :: "nat \<Rightarrow> int \<times> int \<times> int \<times> int \<Rightarrow> string + frame"
  screenshot_current :: "int \<times> int \<times> int \<times> int \<Rightarrow> string + frame"
  screenshot_final :: "int \<times> int \<times> int \<times> int \<Rightarrow> string + frame"
  evaluate_quality :: "frame option \<Rightarrow> py_float"

definition check_safety_exit :: "bool \<Rightarrow> bool \<Rightarrow> py_error + unit" where
  "check_safety_exit is_running is_window_valid =
     (if \<not> is_running then Inl (SafetyExit ''Scanner stopped'')
      else if \<not> is_window_valid then Inl (SafetyExit ''Game window closed'')
      else Inr ())"

subsection \<open>find\_top\_left\_corner\<close>

text \<open>
  The function returns a boolean; the model returns with it the lines it logs, so that
  the two ways of returning \<open>True\<close> can be told apart. The texts are given without the
  symbol that starts them in the source. \<open>Attempt n m\<close> is the line of attempt \<open>n\<close>,
  saying MOVED when \<open>m\<close> holds and CORNER HIT otherwise.
  \<open>corner_attempts env remaining attempt\<close> is the \<open>for\<close> loop from \<open>attempt\<close> on, with
  \<open>remaining\<close> iterations to go.
\<close>

datatype log_line = Info string | Attempt nat bool

definition with_lines ::
  "log_line list \<Rightarrow> py_error + (bool \<times> log_line list) \<Rightarrow> py_error + (bool \<times> log_line list)" where
  "with_lines lines r = py_bind r (\<lambda>(b, rest). Inr (b, lines @ rest))"

fun corner_attempts :: "scanner_env \<Rightarrow> nat \<Rightarrow> nat \<Rightarrow> py_error + (bool \<times> log_line list)" where
  "corner_attempts env 0 attempt = Inr (True, [Info ''Corner search completed''])"
| "corner_attempts env (Suc remaining) attempt =
     py_bind (check_safety_exit (running env) (window_valid env attempt)) (\<lambda>_.
       let drag_distance = 450;
           was_moved = moved env attempt drag_distance drag_distance;
           lines = (if attempt mod 10 = 0 \<or> \<not> was_moved
                    then [Attempt (attempt + 1) was_moved] else [])
       in if \<not> was_moved
          then (let moved_confirm = moved env attempt 200 200
                in if \<not> moved_confirm
                   then Inr (True, lines @ [Info ''TOP-LEFT CORNER REACHED''])
                   else with_lines lines (corner_attempts env remaining (Suc attempt)))
          else with_lines lines (corner_attempts env remaining (Suc attempt)))"

definition find_top_left_corner :: "scanner_env \<Rightarrow> py_error + (bool \<times> log_line list)" where
  "find_top_left_corner env =
     py_bind (safe_move_mouse (moveTo env) (running env)) (\<lambda>at_center.
       if \<not> at_center then Inr (False, [Info ''FINDING TOP-LEFT CORNER''])
       else py_bind (py_bind (getattr CaptureConfig ''MAX_CORNER_SEARCH_ATTEMPTS'') as_int)
              (\<lambda>max_attempts.
                 with_lines [Info ''FINDING TOP-LEFT CORNER'',
                             Info ''Moving toward top-left corner...'']
                   (corner_attempts env (nat max_attempts) 0)))"

text \<open>
  Attempt \<open>a\<close> is a confirmation pair: the 450px drag and the 200px drag that follows it
  both report no movement.
\<close>

abbreviation no_movement_pair :: "scanner_env \<Rightarrow> nat \<Rightarrow> bool" where
  "no_movement_pair env a \<equiv> \<not> moved env a 450 450 \<and> \<not> moved env a 200 200"

subsection \<open>calibrate\_zoom\<close>

text \<open>
  The local variables of \<open>calibrate_zoom\<close>, the field \<open>optimal_zoom_level\<close>, and the
  arguments of the \<open>pyautogui.scroll\<close> calls made so far. The quality-info dictionaries
  stored in \<open>zoom_results\<close> are only logged and are left out.
\<close>

record calibration =
  zoom_results :: "(int \<times> py_float) list"
  best_quality :: py_float
  best_zoom_level :: int
  optimal_zoom_level :: int
  scroll_calls :: "int list"

fun test_zoom_levels ::
  "ScreenCapture \<Rightarrow> scanner_env \<Rightarrow> nat \<Rightarrow> (int \<times> int) list \<Rightarrow> calibration
     \<Rightarrow> py_error + calibration" where
  "test_zoom_levels sc env i [] st = Inr st"
| "test_zoom_levels sc env i ((zoom_level, clicks_per_level) # rest) st =
     py_bind (check_safety_exit (running env) (window_valid env i)) (\<lambda>_.
       let zoom_clicks = (if zoom_level > 0 then clicks_per_level else - clicks_per_level)
       in py_bind (zoom_control (scroll env i) zoom_clicks (running env)) (\<lambda>(zoomed, calls).
            let st1 = st\<lparr>scroll_calls := scroll_calls st @ calls\<rparr>
            in if \<not> zoomed then test_zoom_levels sc env (Suc i) rest st1
               else py_bind (capture_screen sc (screenshot env i) (running env)) (\<lambda>test_image.
                      let quality = evaluate_quality env test_image;
                          st2 = st1\<lparr>zoom_results := zoom_results st1 @ [(zoom_level, quality)]\<rparr>;
                          st3 = (if quality > best_quality st2
                                 then st2\<lparr>best_quality := quality, best_zoom_level := zoom_level\<rparr>
                                 else st2)
                      in test_zoom_levels sc env (Suc i) rest st3)))"

definition reset_and_apply_optimal_zoom ::
  "scanner_env \<Rightarrow> calibration \<Rightarrow> int \<Rightarrow> py_error + calibration" where
  "reset_and_apply_optimal_zoom env st best =
     (let tested = tl (zoom_results st);
          total_applied_zoom = sum_list (map (\<lambda>(level, q). \<bar>level\<bar> * 2) tested)
      in py_bind
           (if total_applied_zoom > 0
            then (let reset_clicks = sum_list (map (\<lambda>(level, q). - level * 2) tested)
                  in if reset_clicks \<noteq> 0
                     then py_bind (zoom_control (scroll_reset env) reset_clicks (running env))
                            (\<lambda>(zoomed, calls). Inr (st\<lparr>scroll_calls := scroll_calls st @ calls\<rparr>))
                     else Inr st)
            else Inr st)
           (\<lambda>st1. if best \<noteq> 0
                  then py_bind (zoom_control (scroll_apply env) (best * 2) (running env))
                         (\<lambda>(zoomed, calls).
                            Inr (st1\<lparr>scroll_calls := scroll_calls st1 @ calls,
                                     optimal_zoom_level := best\<rparr>))
                  else Inr st1))"

definition calibrate_zoom ::
  "ScreenCapture \<Rightarrow> scanner_env \<Rightarrow> py_error + (bool \<times> calibration option)" where
  "calibrate_zoom sc env =
     (case py_bind (safe_move_mouse (moveTo env) (running env)) (\<lambda>at_center.
             if \<not> at_center then Inr (False, None)
             else py_bind (capture_screen sc (screenshot_current env) (running env))
               (\<lambda>current_image.
                  let current_quality = evaluate_quality env current_image;
                      st0 = \<lparr>zoom_results = [(0, current_quality)],
                             best_quality = current_quality, best_zoom_level = 0,
                             optimal_zoom_level = 0, scroll_calls = []\<rparr>
                  in py_bind (py_bind (getattr ScanConfig ''ZOOM_LEVELS_TO_TEST'') as_pair_list)
                       (\<lambda>levels.
                     py_bind (test_zoom_levels sc env 0 levels st0) (\<lambda>st1.
                     py_bind (reset_and_apply_optimal_zoom env st1 (best_zoom_level st1)) (\<lambda>st2.
                     py_bind (capture_screen sc (screenshot_final env) (running env))
                       (\<lambda>final_image.
                     py_bind (getattr OCRConfig ''MIN_QUALITY_THRESHOLD'') (\<lambda>threshold.
                     py_bind (float_ge (evaluate_quality env final_image) threshold) (\<lambda>good.
                       Inr (good, Some st2)))))))))
      of Inr r \<Rightarrow> Inr r
       | Inl e \<Rightarrow> Inl (CalibrationError (''Zoom calibration failed: '' @ str e)))"

section \<open>Capture origin stays inside the effective area\<close>

lemma safe_clamp_bounds:
  assumes "lo \<le> hi"
  shows "lo \<le> safe_clamp v lo hi" and "safe_clamp v lo hi \<le> hi"
  using assms by (simp_all add: safe_clamp_def)

text \<open>
  Claim C6. For an effective area \<open>(x, y, width, height)\<close> and a capture size \<open>(w, h)\<close>
  with \<open>w \<le> width\<close> and \<open>h \<le> height\<close>, the origin computed from any centre point satisfies
  \<open>x \<le> origin.x \<le> x + width - w\<close> and \<open>y \<le> origin.y \<le> y + height - h\<close>; hence the whole
  capture rectangle lies inside the effective area.
\<close>

theorem capture_origin_within_effective_area:
  assumes area: "effective_game_area self = Some (x, y, width, height)"
    and size: "capture_size self = (w, h)"
    and fits: "w \<le> width" "h \<le> height"
    and origin: "calculate_capture_coordinates self = (ox, oy)"
  shows "x \<le> ox \<and> ox \<le> x + width - w \<and> y \<le> oy \<and> oy \<le> y + height - h
         \<and> ox + w \<le> x + width \<and> oy + h \<le> y + height"
proof -
  have ox: "ox = safe_clamp (center_x self - w div 2) x (x + width - w)"
    and oy: "oy = safe_clamp (center_y self - h div 2) y (y + height - h)"
    using area size origin by (simp_all add: calculate_capture_coordinates_def Let_def)
  have "x \<le> x + width - w" and "y \<le> y + height - h"
    using fits by simp_all
  then have "x \<le> ox" "ox \<le> x + width - w" "y \<le> oy" "oy \<le> y + height - h"
    unfolding ox oy by (simp_all add: safe_clamp_bounds)
  then show ?thesis by simp
qed

theorem capture_origin_within_effective_area_witness:
  "calculate_capture_coordinates
     \<lparr>center_x = 20, center_y = 900, capture_size = (500, 400),
      effective_game_area = Some (100, 80, 1500, 700)\<rparr> = (100, 380)
   \<and> (100::int) \<le> 100 \<and> (100::int) \<le> 100 + 1500 - 500
   \<and> (80::int) \<le> 380 \<and> (380::int) \<le> 80 + 700 - 400"
proof -
  let ?sc = "\<lparr>center_x = 20, center_y = 900, capture_size = (500, 400),
               effective_game_area = Some (100, 80, 1500, 700)\<rparr>"
  have c: "calculate_capture_coordinates ?sc = (100, 380)"
    by (simp add: calculate_capture_coordinates_def safe_clamp_def)
  from capture_origin_within_effective_area [of ?sc 100 80 1500 700 500 400 100 380, OF _ _ _ _ c]
  show ?thesis using c by simp
qed

section \<open>Alliance-tag stripping\<close>












section \<open>Target matching\<close>

lemma lower_johndoe: "lower ''JohnDoe'' = ''johndoe''"
  by code_simp

lemma lower_ally_text: "lower ''[ally]johndoe says hi'' = ''[ally]johndoe says hi''"
  by code_simp

lemma search_johndoe:
  "search_for_targets \<lparr>best_text = ''[ally]johndoe says hi'', best_confidence = c\<rparr>
     (Some img) [''JohnDoe'']
   = (True, Some \<lparr>name = ''JohnDoe'', detected_text = ''[ally]johndoe says hi'',
                   matched_word = None, match_type = ''exact_full'',
                   confidence = c, ocr_strategy = ''comprehensive''\<rparr>)"
  by (simp add: search_for_targets_def match_target_def lower_johndoe lower_ally_text)

text \<open>
  Claim C3, as stated, fails: for the best text \<open>[ally]johndoe says hi\<close> and the target
  list \<open>[JohnDoe]\<close> the match is not of type \<open>exact_word\<close>. The lower-cased target is a
  substring of the lower-cased text, and the full-text test comes first.
\<close>

theorem search_johndoe_not_exact_word:
  "match_type (the (snd (search_for_targets
       \<lparr>best_text = ''[ally]johndoe says hi'', best_confidence = 90\<rparr>
       (Some []) [''JohnDoe'']))) \<noteq> ''exact_word''
   \<and> matched_word (the (snd (search_for_targets
       \<lparr>best_text = ''[ally]johndoe says hi'', best_confidence = 90\<rparr>
       (Some []) [''JohnDoe'']))) \<noteq> Some ''johndoe''"
  by (simp add: search_johndoe)

text \<open>
  Claim C3, amended. For the best text \<open>[ally]johndoe says hi\<close> and the target list
  \<open>[JohnDoe]\<close>, \<open>search_for_targets\<close> returns exactly one match, for the target \<open>JohnDoe\<close>,
  whose match type is \<open>exact_full\<close> and which carries no matched word.
\<close>

theorem search_johndoe_exact_full:
  "search_for_targets \<lparr>best_text = ''[ally]johndoe says hi'', best_confidence = c\<rparr>
     (Some img) [''JohnDoe'']
   = (True, Some \<lparr>name = ''JohnDoe'', detected_text = ''[ally]johndoe says hi'',
                   matched_word = None, match_type = ''exact_full'',
                   confidence = c, ocr_strategy = ''comprehensive''\<rparr>)
   \<and> length (find_targets \<lparr>best_text = ''[ally]johndoe says hi'', best_confidence = c\<rparr>
        (lower ''[ally]johndoe says hi'') [''JohnDoe''] []) = 1"
  by (simp add: search_johndoe match_target_def lower_johndoe lower_ally_text)

lemma find_targets_acc:
  "find_targets r d ts acc = acc @ List.map_filter (match_target r d) ts"
  by (induction ts arbitrary: acc) (simp_all add: List.map_filter_simps split: option.splits)

lemma match_target_fields:
  "match_target r d t = Some m \<Longrightarrow> confidence m = best_confidence r \<and> name m = t"
  by (auto simp: match_target_def Let_def split: if_splits option.splits)

lemma max_by_first: "\<forall>x\<in>set xs. key x \<le> key best \<Longrightarrow> max_by key best xs = best"
  by (induction xs) auto

lemma map_filter_confidence:
  "m \<in> set (List.map_filter (match_target r d) ts) \<Longrightarrow> confidence m = best_confidence r"
  by (auto simp: List.map_filter_def dest: match_target_fields)

lemma map_filter_names:
  "map name (List.map_filter (match_target r d) ts)
     = filter (\<lambda>t. match_target r d t \<noteq> None) ts"
  by (induction ts) (auto simp: List.map_filter_simps dest: match_target_fields split: option.splits)

lemma map_filter_head_find:
  "(case List.map_filter f ts of [] \<Rightarrow> None | m # ms \<Rightarrow> Some m)
     = (case List.find (\<lambda>t. f t \<noteq> None) ts of None \<Rightarrow> None | Some t \<Rightarrow> f t)"
  by (induction ts) (auto simp: List.map_filter_simps split: option.splits)

text \<open>
  Claim C9. Every match built for one frame carries the frame's \<open>best_confidence\<close>; the
  names of the matches built are the matching entries of \<open>target_names\<close>, in order, one
  per entry; and the match returned is the one of the earliest matching target.
\<close>

theorem search_for_targets_earliest_match:
  assumes "best_text results \<noteq> []"
  shows "(let d = lower (best_text results);
              found = find_targets results d target_names []
          in (\<forall>m\<in>set found. confidence m = best_confidence results)
           \<and> map name found = filter (\<lambda>t. match_target results d t \<noteq> None) target_names
           \<and> search_for_targets results (Some img) target_names =
               (case List.find (\<lambda>t. match_target results d t \<noteq> None) target_names of
                  None \<Rightarrow> (False, None)
                | Some t \<Rightarrow> (True, match_target results d t)))"
proof -
  define d where "d = lower (best_text results)"
  define found where "found = find_targets results d target_names []"
  have found: "found = List.map_filter (match_target results d) target_names"
    by (simp add: found_def find_targets_acc)
  have conf: "\<forall>m\<in>set found. confidence m = best_confidence results"
    using map_filter_confidence found by blast
  have names: "map name found = filter (\<lambda>t. match_target results d t \<noteq> None) target_names"
    by (simp add: found map_filter_names)
  have hd: "(case found of [] \<Rightarrow> None | m # ms \<Rightarrow> Some m)
     = (case List.find (\<lambda>t. match_target results d t \<noteq> None) target_names of
          None \<Rightarrow> None | Some t \<Rightarrow> match_target results d t)"
    unfolding found by (rule map_filter_head_find)
  have res: "search_for_targets results (Some img) target_names =
               (case List.find (\<lambda>t. match_target results d t \<noteq> None) target_names of
                  None \<Rightarrow> (False, None)
                | Some t \<Rightarrow> (True, match_target results d t))"
  proof (cases found)
    case Nil
    with hd have "List.find (\<lambda>t. match_target results d t \<noteq> None) target_names = None"
      by (auto split: option.splits dest: find_Some_iff[THEN iffD1])
    with Nil show ?thesis using assms
      by (simp add: search_for_targets_def found_def[symmetric] d_def[symmetric])
  next
    case (Cons m ms)
    from conf Cons have "\<forall>x\<in>set ms. confidence x \<le> confidence m" by simp
    then have best: "max_by confidence m ms = m" by (rule max_by_first)
    from hd Cons obtain t where
      "List.find (\<lambda>t. match_target results d t \<noteq> None) target_names = Some t"
      "match_target results d t = Some m"
      by (auto split: option.splits)
    with Cons best show ?thesis using assms
      by (simp add: search_for_targets_def found_def[symmetric] d_def[symmetric])
  qed
  show ?thesis
    unfolding Let_def d_def[symmetric] found_def[symmetric] using conf names res by simp
qed


theorem search_for_targets_earliest_match_witness:
  "best_text \<lparr>best_text = ''Alice bob'', best_confidence = 77\<rparr> \<noteq> []
   \<and> search_for_targets \<lparr>best_text = ''Alice bob'', best_confidence = 77\<rparr> (Some [])
        [''Zed'', ''Bob'', ''alice'']
      = (True, Some \<lparr>name = ''Bob'', detected_text = ''Alice bob'', matched_word = None,
                      match_type = ''exact_full'', confidence = 77,
                      ocr_strategy = ''comprehensive''\<rparr>)
   \<and> map name (find_targets \<lparr>best_text = ''Alice bob'', best_confidence = 77\<rparr>
          (lower ''Alice bob'') [''Zed'', ''Bob'', ''alice''] []) = [''Bob'', ''alice'']"
proof -
  let ?r = "\<lparr>best_text = ''Alice bob'', best_confidence = 77\<rparr>"
  have ne: "best_text ?r \<noteq> []" by simp
  have l: "lower ''Alice bob'' = ''alice bob''" by code_simp
  have z: "match_target ?r ''alice bob'' ''Zed'' = None" by code_simp
  have b: "match_target ?r ''alice bob'' ''Bob''
    = Some \<lparr>name = ''Bob'', detected_text = ''Alice bob'', matched_word = None,
                      match_type = ''exact_full'', confidence = 77,
                      ocr_strategy = ''comprehensive''\<rparr>" by code_simp
  have a: "match_target ?r ''alice bob'' ''alice'' \<noteq> None" by code_simp
  from search_for_targets_earliest_match [OF ne, of "[''Zed'', ''Bob'', ''alice'']" "[]"]
  show ?thesis using l z b a by (simp add: Let_def)
qed

section \<open>Movement detection\<close>

lemma no_similarity_threshold:
  "getattr CaptureConfig ''SIMILARITY_THRESHOLD''
     = Inl (AttributeError (''type object '' @ [CHR 0x27] @ ''CaptureConfig'' @ [CHR 0x27]
              @ '' has no attribute '' @ [CHR 0x27] @ ''SIMILARITY_THRESHOLD'' @ [CHR 0x27]))"
  by (simp add: getattr_def CaptureConfig_def)

lemma scan_config_threshold: "getattr ScanConfig ''SIMILARITY_THRESHOLD'' = Inr (PyFloat 98)"
  by (simp add: getattr_def ScanConfig_def)

lemma detect_movement_False: "fst (detect_movement cv before_image after_image) = False"
  by (simp add: detect_movement_def no_similarity_threshold py_bind_def
           split: option.splits sum.splits)

lemma detect_example:
  "detect_movement \<lparr>cvtColor = (\<lambda>arr. Inr (map (map sum_list) arr)), matchTemplate = (\<lambda>a b. Inr 0.5)\<rparr>
       (Some [[[0, 0, 0]]]) (Some [[[255, 255, 255]]])
     = (False, Msg (''type object '' @ [CHR 0x27] @ ''CaptureConfig'' @ [CHR 0x27]
              @ '' has no attribute '' @ [CHR 0x27] @ ''SIMILARITY_THRESHOLD'' @ [CHR 0x27]))"
  by (simp add: detect_movement_def no_similarity_threshold py_bind_def lib_def)


text \<open>
  Claim C1 does not hold of the code: \<open>detect_movement\<close> never reports movement. It reads
  the threshold as \<open>CaptureConfig.SIMILARITY_THRESHOLD\<close>, but the attribute is assigned in
  \<open>ScanConfig\<close> (98.0) and not in \<open>CaptureConfig\<close>; the lookup raises \<open>AttributeError\<close> inside
  the \<open>try\<close>, and the handler returns \<open>False\<close> with the message. So it does for two frames
  whose similarity is 50 percent, below the threshold.
\<close>

theorem detect_movement_never_reports_movement:
  "fst (detect_movement cv before_image after_image) = False
   \<and> getattr ScanConfig ''SIMILARITY_THRESHOLD'' = Inr (PyFloat 98)
   \<and> detect_movement
        \<lparr>cvtColor = (\<lambda>arr. Inr (map (map sum_list) arr)), matchTemplate = (\<lambda>a b. Inr 0.5)\<rparr>
        (Some [[[0, 0, 0]]]) (Some [[[255, 255, 255]]])
      = (False, Msg (''type object '' @ [CHR 0x27] @ ''CaptureConfig'' @ [CHR 0x27]
              @ '' has no attribute '' @ [CHR 0x27] @ ''SIMILARITY_THRESHOLD'' @ [CHR 0x27]))"
  by (simp only: detect_movement_False scan_config_threshold detect_example simp_thms)

section \<open>Cancellation and capture outcomes\<close>

lemma capture_screen_stopped:
  "capture_screen self shot False = Inl (SafetyExit ''Capture stopped'')"
  by (simp add: capture_screen_def)

lemma cadm_stopped:
  "capture_and_detect_movement self cv io dx dy duration False = (False, Msg ''Capture stopped'')"
  by (simp add: capture_and_detect_movement_def capture_screen_stopped py_bind_def)

lemma capture_screen_running:
  "capture_screen self shot True =
     (case shot (fst (calculate_capture_coordinates self), snd (calculate_capture_coordinates self),
                 fst (capture_size self), snd (capture_size self)) of
        Inl msg \<Rightarrow> Inl (CaptureError (''Screen capture failed: '' @ msg))
      | Inr arr \<Rightarrow> Inr (Some arr))"
  by (simp add: capture_screen_def py_bind_def lib_def split: prod.splits sum.splits)

lemma capture_screen_not_None: "capture_screen self shot running_flag \<noteq> Inr None"
  by (cases running_flag) (simp_all add: capture_screen_stopped capture_screen_running split: sum.splits)

lemma none_branch_dead:
  "m \<noteq> Inr None \<Longrightarrow> py_bind m (\<lambda>v. if v = None then a else f v) = py_bind m f"
  by (cases m) (auto simp: py_bind_def)

text \<open>
  Claim C2 does not hold of the code: with the running flag false, \<open>capture_screen\<close>
  raises \<open>SafetyExit\<close>, and \<open>capture_and_detect_movement\<close>, whose only handler is
  \<open>except Exception\<close>, turns it into the ordinary result \<open>(False, Capture stopped)\<close>, that
  is, no movement.
\<close>

theorem safety_exit_becomes_no_movement:
  "capture_screen self shot False = Inl (SafetyExit ''Capture stopped'')
   \<and> capture_and_detect_movement self cv io dx dy duration False
       = (False, Msg ''Capture stopped'')"
  by (simp only: capture_screen_stopped cadm_stopped simp_thms)

text \<open>
  Claim C10. \<open>capture_screen\<close> never returns \<open>None\<close>: it returns an image array, raises
  \<open>CaptureError\<close>, or raises \<open>SafetyExit\<close>, the last exactly when the running flag is false.
  Hence the two \<open>is None\<close> branches of \<open>capture_and_detect_movement\<close> are dead: the
  function equals its body without them.
\<close>

theorem capture_screen_outcomes:
  "capture_screen self shot running_flag \<noteq> Inr None
   \<and> ((\<exists>arr. capture_screen self shot running_flag = Inr (Some arr))
      \<or> (\<exists>m. capture_screen self shot running_flag = Inl (CaptureError m))
      \<or> capture_screen self shot running_flag = Inl (SafetyExit ''Capture stopped''))
   \<and> ((\<exists>m. capture_screen self shot running_flag = Inl (SafetyExit m)) = (\<not> running_flag))
   \<and> capture_and_detect_movement self cv io dx dy duration running_flag =
       (case py_bind (capture_screen self (screenshot_before io) running_flag) (\<lambda>before_img.
               py_bind (safe_drag (drag io) dx dy duration True) (\<lambda>dragged.
                 if \<not> dragged then Inr (False, Msg ''Drag operation failed'')
                 else py_bind (capture_screen self (screenshot_after io) running_flag) (\<lambda>after_img.
                        Inr (detect_movement cv before_img after_img))))
        of Inr r \<Rightarrow> r
         | Inl e \<Rightarrow> (False, Msg (str e)))"
proof -
  have a: "capture_screen self shot running_flag \<noteq> Inr None"
    by (rule capture_screen_not_None)
  have b: "(\<exists>arr. capture_screen self shot running_flag = Inr (Some arr))
      \<or> (\<exists>m. capture_screen self shot running_flag = Inl (CaptureError m))
      \<or> capture_screen self shot running_flag = Inl (SafetyExit ''Capture stopped'')"
    by (cases running_flag) (auto simp: capture_screen_stopped capture_screen_running split: sum.splits)
  have c: "(\<exists>m. capture_screen self shot running_flag = Inl (SafetyExit m)) = (\<not> running_flag)"
    by (cases running_flag) (auto simp: capture_screen_stopped capture_screen_running split: sum.splits)
  have d: "capture_and_detect_movement self cv io dx dy duration running_flag =
       (case py_bind (capture_screen self (screenshot_before io) running_flag) (\<lambda>before_img.
               py_bind (safe_drag (drag io) dx dy duration True) (\<lambda>dragged.
                 if \<not> dragged then Inr (False, Msg ''Drag operation failed'')
                 else py_bind (capture_screen self (screenshot_after io) running_flag) (\<lambda>after_img.
                        Inr (detect_movement cv before_img after_img))))
        of Inr r \<Rightarrow> r
         | Inl e \<Rightarrow> (False, Msg (str e)))"
    by (simp add: capture_and_detect_movement_def none_branch_dead capture_screen_not_None
             cong: if_cong)
  from a b c d show ?thesis by blast
qed


section \<open>Corner search\<close>

lemma py_bind_simps:
  "py_bind (Inr v) f = f v" "py_bind (Inl e) f = Inl e"
  by (simp_all add: py_bind_def)

lemma max_attempts: "py_bind (getattr CaptureConfig ''MAX_CORNER_SEARCH_ATTEMPTS'') as_int = Inr 200"
  by (simp add: getattr_def CaptureConfig_def as_int_def py_bind_def)

lemma find_top_left_corner_running:
  assumes "running env" "moveTo env = Inr ()"
  shows "find_top_left_corner env =
           with_lines [Info ''FINDING TOP-LEFT CORNER'', Info ''Moving toward top-left corner...'']
             (corner_attempts env 200 0)"
  using assms
  by (simp add: find_top_left_corner_def safe_move_mouse_def lib_def max_attempts py_bind_simps)

lemma check_safety_exit_ok: "is_running \<Longrightarrow> valid \<Longrightarrow> check_safety_exit is_running valid = Inr ()"
  by (simp add: check_safety_exit_def)

lemma with_lines_Inr: "with_lines lines (Inr (b, rest)) = Inr (b, lines @ rest)"
  by (simp add: with_lines_def py_bind_def)

lemma corner_attempts_step:
  assumes "running env" "window_valid env attempt"
  shows "corner_attempts env (Suc remaining) attempt =
     (let lines = (if attempt mod 10 = 0 \<or> \<not> moved env attempt 450 450
                    then [Attempt (attempt + 1) (moved env attempt 450 450)] else [])
      in if no_movement_pair env attempt
         then Inr (True, lines @ [Info ''TOP-LEFT CORNER REACHED''])
         else with_lines lines (corner_attempts env remaining (Suc attempt)))"
  using assms
  by (simp add: check_safety_exit_ok py_bind_def Let_def)

lemma corner_attempts_last:
  assumes "running env"
    and "\<forall>b. attempt \<le> b \<and> b < attempt + remaining \<longrightarrow> window_valid env b"
  shows "\<exists>lines. corner_attempts env remaining attempt = Inr (True, lines) \<and> lines \<noteq> []
           \<and> last lines = (if \<exists>b. attempt \<le> b \<and> b < attempt + remaining \<and> no_movement_pair env b
                           then Info ''TOP-LEFT CORNER REACHED''
                           else Info ''Corner search completed'')"
  using assms(2)
proof (induction remaining arbitrary: attempt)
  case 0
  then show ?case by simp
next
  case (Suc remaining)
  have valid: "window_valid env attempt" using Suc.prems by simp
  note step = corner_attempts_step [OF assms(1) valid, of remaining]
  show ?case
  proof (cases "no_movement_pair env attempt")
    case True
    then have "\<exists>b. attempt \<le> b \<and> b < attempt + Suc remaining \<and> no_movement_pair env b"
      by (intro exI[of _ attempt]) simp
    then show ?thesis using True step by (simp add: Let_def)
  next
    case False
    have "\<forall>b. Suc attempt \<le> b \<and> b < Suc attempt + remaining \<longrightarrow> window_valid env b"
      using Suc.prems by simp
    from Suc.IH [OF this] obtain ls where
      ls: "corner_attempts env remaining (Suc attempt) = Inr (True, ls)" "ls \<noteq> []"
      "last ls = (if \<exists>b. Suc attempt \<le> b \<and> b < Suc attempt + remaining \<and> no_movement_pair env b
                  then Info ''TOP-LEFT CORNER REACHED''
                  else Info ''Corner search completed'')"
      by blast
    have eq: "(\<exists>b. attempt \<le> b \<and> b < attempt + Suc remaining \<and> no_movement_pair env b)
            = (\<exists>b. Suc attempt \<le> b \<and> b < Suc attempt + remaining \<and> no_movement_pair env b)"
      using False by (metis Suc_leD Suc_leI add_Suc_right add_Suc le_neq_implies_less)
    show ?thesis
      using False step ls unfolding eq by (simp add: Let_def with_lines_Inr)
  qed
qed

lemma corner_attempts_stops_at_first_pair:
  assumes "running env"
    and "\<forall>b. attempt \<le> b \<and> b < attempt + remaining \<longrightarrow> window_valid env b"
    and "attempt \<le> a" "a < attempt + remaining" "no_movement_pair env a"
    and "\<forall>b. attempt \<le> b \<and> b < a \<longrightarrow> \<not> no_movement_pair env b"
  shows "\<exists>pre. corner_attempts env remaining attempt
           = Inr (True, pre @ [Attempt (a + 1) False, Info ''TOP-LEFT CORNER REACHED''])"
  using assms(2-)
proof (induction remaining arbitrary: attempt)
  case 0
  then show ?case by simp
next
  case (Suc remaining)
  have valid: "window_valid env attempt" using Suc.prems by simp
  note step = corner_attempts_step [OF assms(1) valid, of remaining]
  show ?case
  proof (cases "attempt = a")
    case True
    then have "no_movement_pair env attempt" using Suc.prems by simp
    then show ?thesis using step True by (simp add: Let_def)
  next
    case False
    then have lt: "attempt < a" using Suc.prems by simp
    then have np: "\<not> no_movement_pair env attempt" using Suc.prems by simp
    have "\<exists>pre. corner_attempts env remaining (Suc attempt)
           = Inr (True, pre @ [Attempt (a + 1) False, Info ''TOP-LEFT CORNER REACHED''])"
      using Suc.prems lt by (intro Suc.IH) auto
    then obtain pre where "corner_attempts env remaining (Suc attempt)
           = Inr (True, pre @ [Attempt (a + 1) False, Info ''TOP-LEFT CORNER REACHED''])" ..
    then show ?thesis using step np by (simp add: Let_def with_lines_Inr)
  qed
qed

text \<open>
  Claim C7. With the scanner running, the mouse moved to the centre and the window valid
  throughout, \<open>find_top_left_corner\<close> returns \<open>True\<close>. It declares the corner reached
  exactly when some attempt below 200 is a confirmation pair (the 450px drag and the
  following 200px drag both report no movement), and then stops at the first such
  attempt; a no-movement result whose confirmation reports movement lets the search go
  on. With no confirmation pair in 200 attempts it logs that the search is completed and
  still returns \<open>True\<close>.
\<close>

theorem corner_search_needs_confirmation_pair:
  assumes "running env" and "moveTo env = Inr ()" and "\<forall>a<200. window_valid env a"
  shows "\<exists>lines. find_top_left_corner env = Inr (True, lines)
     \<and> (last lines = Info ''TOP-LEFT CORNER REACHED'')
         = (\<exists>a<200. \<not> moved env a 450 450 \<and> \<not> moved env a 200 200)
     \<and> (last lines = Info ''Corner search completed'')
         = (\<forall>a<200. moved env a 450 450 \<or> moved env a 200 200)
     \<and> (\<forall>a<200. \<not> moved env a 450 450 \<and> \<not> moved env a 200 200
            \<and> (\<forall>b<a. moved env b 450 450 \<or> moved env b 200 200)
          \<longrightarrow> (\<exists>pre. lines = pre @ [Attempt (a + 1) False, Info ''TOP-LEFT CORNER REACHED'']))"
proof -
  have valid: "\<forall>b. 0 \<le> b \<and> b < 0 + 200 \<longrightarrow> window_valid env b"
    using assms(3) by simp
  from corner_attempts_last [OF assms(1) valid] obtain ls where
    ls: "corner_attempts env 200 0 = Inr (True, ls)" "ls \<noteq> []"
    "last ls = (if \<exists>b. 0 \<le> b \<and> b < 0 + 200 \<and> no_movement_pair env b
                then Info ''TOP-LEFT CORNER REACHED'' else Info ''Corner search completed'')"
    by blast
  let ?head = "[Info ''FINDING TOP-LEFT CORNER'', Info ''Moving toward top-left corner...'']"
  let ?lines = "?head @ ls"
  have res: "find_top_left_corner env = Inr (True, ?lines)"
    using find_top_left_corner_running [OF assms(1,2)] ls(1) by (simp add: with_lines_Inr)
  have last: "last ?lines = last ls" using ls(2) by simp
  have reached: "(last ?lines = Info ''TOP-LEFT CORNER REACHED'')
         = (\<exists>a<200. \<not> moved env a 450 450 \<and> \<not> moved env a 200 200)"
    unfolding last ls(3) by auto
  have completed: "(last ?lines = Info ''Corner search completed'')
         = (\<forall>a<200. moved env a 450 450 \<or> moved env a 200 200)"
    unfolding last ls(3) by auto
  have first: "\<exists>pre. ?lines = pre @ [Attempt (a + 1) False, Info ''TOP-LEFT CORNER REACHED'']"
    if a: "a < 200" "no_movement_pair env a" "\<forall>b<a. moved env b 450 450 \<or> moved env b 200 200" for a
  proof -
    have "\<exists>pre. corner_attempts env 200 0
           = Inr (True, pre @ [Attempt (a + 1) False, Info ''TOP-LEFT CORNER REACHED''])"
      using a by (intro corner_attempts_stops_at_first_pair [OF assms(1) valid]) auto
    then obtain pre where "ls = pre @ [Attempt (a + 1) False, Info ''TOP-LEFT CORNER REACHED'']"
      using ls(1) by auto
    then have "?lines = (?head @ pre) @ [Attempt (a + 1) False, Info ''TOP-LEFT CORNER REACHED'']"
      by simp
    then show ?thesis by blast
  qed
  show ?thesis
    using res reached completed first by (intro exI[of _ ?lines]) blast
qed


theorem corner_search_needs_confirmation_pair_witness:
  "find_top_left_corner
     \<lparr>running = True, moveTo = Inr (), window_valid = (\<lambda>i. True),
        moved = (\<lambda>i dx dy. i = 0 \<and> dx = 200), scroll = (\<lambda>i. Inr ()),
        scroll_reset = Inr (), scroll_apply = Inr (), screenshot = (\<lambda>i r. Inr []),
        screenshot_current = (\<lambda>r. Inr []), screenshot_final = (\<lambda>r. Inr []),
        evaluate_quality = (\<lambda>f. 0)\<rparr>
   = Inr (True, [Info ''FINDING TOP-LEFT CORNER'', Info ''Moving toward top-left corner...'',
                 Attempt 1 False, Attempt 2 False, Info ''TOP-LEFT CORNER REACHED''])"
proof -
  let ?E = "\<lparr>running = True, moveTo = Inr (), window_valid = (\<lambda>i. True),
        moved = (\<lambda>i dx dy. i = 0 \<and> dx = 200), scroll = (\<lambda>i. Inr ()),
        scroll_reset = Inr (), scroll_apply = Inr (), screenshot = (\<lambda>i r. Inr []),
        screenshot_current = (\<lambda>r. Inr []), screenshot_final = (\<lambda>r. Inr []),
        evaluate_quality = (\<lambda>f. 0)\<rparr>"
  have r: "running ?E" and m: "moveTo ?E = Inr ()" and v: "\<forall>a<200. window_valid ?E a"
    by simp_all
  have res: "find_top_left_corner ?E
   = Inr (True, [Info ''FINDING TOP-LEFT CORNER'', Info ''Moving toward top-left corner...'',
                 Attempt 1 False, Attempt 2 False, Info ''TOP-LEFT CORNER REACHED''])"
    by code_simp
  from corner_search_needs_confirmation_pair [OF r m v] obtain lines where
    "find_top_left_corner ?E = Inr (True, lines)" by blast
  with res show ?thesis by simp
qed

section \<open>Zoom calibration\<close>

lemma zoom_control_calls: "zoom_control outcome clicks r = Inr (ok, calls) \<Longrightarrow> calls = [clicks]"
  by (auto simp: zoom_control_def split: if_splits sum.splits)

lemma py_bind_eq_Inr: "py_bind m f = Inr r \<Longrightarrow> \<exists>v. m = Inr v \<and> f v = Inr r"
  by (cases m) (simp_all add: py_bind_simps)

lemma test_zoom_levels_scroll_calls:
  "test_zoom_levels sc env i levels st = Inr st' \<Longrightarrow>
   scroll_calls st' = scroll_calls st @
     map (\<lambda>(zoom_level, clicks_per_level).
            if zoom_level > 0 then clicks_per_level else - clicks_per_level) levels"
proof (induction levels arbitrary: i st)
  case Nil
  then show ?case by simp
next
  case (Cons lv levels)
  obtain zoom_level clicks_per_level where lv: "lv = (zoom_level, clicks_per_level)"
    by (cases lv)
  let ?clicks = "if zoom_level > 0 then clicks_per_level else - clicks_per_level"
  from Cons.prems obtain zoomed calls where
    zc: "zoom_control (scroll env i) ?clicks (running env) = Inr (zoomed, calls)"
    and rest: "(let st1 = st\<lparr>scroll_calls := scroll_calls st @ calls\<rparr>
            in if \<not> zoomed then test_zoom_levels sc env (Suc i) levels st1
               else py_bind (capture_screen sc (screenshot env i) (running env)) (\<lambda>test_image.
                      let quality = evaluate_quality env test_image;
                          st2 = st1\<lparr>zoom_results := zoom_results st1 @ [(zoom_level, quality)]\<rparr>;
                          st3 = (if quality > best_quality st2
                                 then st2\<lparr>best_quality := quality, best_zoom_level := zoom_level\<rparr>
                                 else st2)
                      in test_zoom_levels sc env (Suc i) levels st3)) = Inr st'"
    unfolding lv by (auto simp: Let_def dest!: py_bind_eq_Inr)
  have calls: "calls = [?clicks]" using zc by (rule zoom_control_calls)
  obtain i' st3 where next_st: "test_zoom_levels sc env i' levels st3 = Inr st'"
    and sc3: "scroll_calls st3 = scroll_calls st @ calls"
    using rest by (auto simp: Let_def split: if_splits dest!: py_bind_eq_Inr)
  from Cons.IH [OF next_st] show ?case
    by (simp add: sc3 calls lv)
qed

lemma zoom_levels_to_test:
  "py_bind (getattr ScanConfig ''ZOOM_LEVELS_TO_TEST'') as_pair_list
     = Inr [(1, 2), (2, 2), (3, 2), (- 1, 2), (- 2, 2), (- 3, 2)]"
  by (simp add: getattr_def ScanConfig_def as_pair_list_def py_bind_simps)

lemma reset_and_apply_scroll_calls:
  "reset_and_apply_optimal_zoom env st best = Inr st' \<Longrightarrow>
   \<exists>more. scroll_calls st' = scroll_calls st @ more"
  by (auto simp: reset_and_apply_optimal_zoom_def Let_def split: if_splits
           dest!: py_bind_eq_Inr)


lemma calibrate_zoom_Inr:
  assumes "calibrate_zoom sc env = Inr (good, Some st)"
  shows "\<exists>current_image st1.
           test_zoom_levels sc env 0 [(1, 2), (2, 2), (3, 2), (- 1, 2), (- 2, 2), (- 3, 2)]
             \<lparr>zoom_results = [(0, evaluate_quality env current_image)],
              best_quality = evaluate_quality env current_image, best_zoom_level = 0,
              optimal_zoom_level = 0, scroll_calls = []\<rparr> = Inr st1
         \<and> reset_and_apply_optimal_zoom env st1 (best_zoom_level st1) = Inr st"
proof -
  from assms obtain at_center where
    b1: "(if \<not> at_center then Inr (False, None)
          else py_bind (capture_screen sc (screenshot_current env) (running env))
               (\<lambda>current_image.
                  let current_quality = evaluate_quality env current_image;
                      st0 = \<lparr>zoom_results = [(0, current_quality)],
                             best_quality = current_quality, best_zoom_level = 0,
                             optimal_zoom_level = 0, scroll_calls = []\<rparr>
                  in py_bind (py_bind (getattr ScanConfig ''ZOOM_LEVELS_TO_TEST'') as_pair_list)
                       (\<lambda>levels.
                     py_bind (test_zoom_levels sc env 0 levels st0) (\<lambda>st1.
                     py_bind (reset_and_apply_optimal_zoom env st1 (best_zoom_level st1)) (\<lambda>st2.
                     py_bind (capture_screen sc (screenshot_final env) (running env))
                       (\<lambda>final_image.
                     py_bind (getattr OCRConfig ''MIN_QUALITY_THRESHOLD'') (\<lambda>threshold.
                     py_bind (float_ge (evaluate_quality env final_image) threshold) (\<lambda>good.
                       Inr (good, Some st2)))))))))
          = Inr (good, Some st)"
    unfolding calibrate_zoom_def
    by (cases "safe_move_mouse (moveTo env) (running env)")
       (auto simp: py_bind_simps split: sum.splits)
  then have at_center by (cases at_center) simp_all
  with b1 obtain current_image where
    b2: "py_bind (test_zoom_levels sc env 0
                   [(1, 2), (2, 2), (3, 2), (- 1, 2), (- 2, 2), (- 3, 2)]
                   \<lparr>zoom_results = [(0, evaluate_quality env current_image)],
                     best_quality = evaluate_quality env current_image, best_zoom_level = 0,
                     optimal_zoom_level = 0, scroll_calls = []\<rparr>) (\<lambda>st1.
                     py_bind (reset_and_apply_optimal_zoom env st1 (best_zoom_level st1)) (\<lambda>st2.
                     py_bind (capture_screen sc (screenshot_final env) (running env))
                       (\<lambda>final_image.
                     py_bind (getattr OCRConfig ''MIN_QUALITY_THRESHOLD'') (\<lambda>threshold.
                     py_bind (float_ge (evaluate_quality env final_image) threshold) (\<lambda>good.
                       Inr (good, Some st2))))))
          = Inr (good, Some st)"
    by (cases "capture_screen sc (screenshot_current env) (running env)")
       (simp_all add: py_bind_simps Let_def zoom_levels_to_test del: test_zoom_levels.simps)
  then obtain st1 where
    loop: "test_zoom_levels sc env 0 [(1, 2), (2, 2), (3, 2), (- 1, 2), (- 2, 2), (- 3, 2)]
             \<lparr>zoom_results = [(0, evaluate_quality env current_image)],
              best_quality = evaluate_quality env current_image, best_zoom_level = 0,
              optimal_zoom_level = 0, scroll_calls = []\<rparr> = Inr st1"
    and b3: "py_bind (reset_and_apply_optimal_zoom env st1 (best_zoom_level st1)) (\<lambda>st2.
                     py_bind (capture_screen sc (screenshot_final env) (running env))
                       (\<lambda>final_image.
                     py_bind (getattr OCRConfig ''MIN_QUALITY_THRESHOLD'') (\<lambda>threshold.
                     py_bind (float_ge (evaluate_quality env final_image) threshold) (\<lambda>good.
                       Inr (good, Some st2)))))
          = Inr (good, Some st)"
    by (blast dest: py_bind_eq_Inr)
  from b3 obtain st2 where
    reset: "reset_and_apply_optimal_zoom env st1 (best_zoom_level st1) = Inr st2"
    and b4: "py_bind (capture_screen sc (screenshot_final env) (running env))
                       (\<lambda>final_image.
                     py_bind (getattr OCRConfig ''MIN_QUALITY_THRESHOLD'') (\<lambda>threshold.
                     py_bind (float_ge (evaluate_quality env final_image) threshold) (\<lambda>good.
                       Inr (good, Some st2))))
          = Inr (good, Some st)"
    by (blast dest: py_bind_eq_Inr)
  from b4 obtain final_image where
    b5: "py_bind (getattr OCRConfig ''MIN_QUALITY_THRESHOLD'') (\<lambda>threshold.
                     py_bind (float_ge (evaluate_quality env final_image) threshold) (\<lambda>good.
                       Inr (good, Some st2)))
          = Inr (good, Some st)"
    by (blast dest: py_bind_eq_Inr)
  from b5 obtain threshold where
    b6: "py_bind (float_ge (evaluate_quality env final_image) threshold) (\<lambda>good.
                       Inr (good, Some st2)) = Inr (good, Some st)"
    by (blast dest: py_bind_eq_Inr)
  then have "st2 = st" by (auto dest!: py_bind_eq_Inr)
  with loop reset show ?thesis by blast
qed

text \<open>
  Claim C4 does not hold of the code. Whenever \<open>calibrate_zoom\<close> runs to its end, the six
  tests have called \<open>pyautogui.scroll\<close> with 2, 2, 2, -2, -2, -2 clicks: each test scrolls
  by \<open>clicks_per_level\<close> with the sign of the level, whatever the level. The claim asks
  for 2, 4, 6, -2, -4, -6. (Summed up, the tests of the levels -1, -2, -3 run at 4, 2
  and 0 clicks from the start.)
\<close>

theorem zoom_tests_scroll_two_clicks_each:
  assumes "calibrate_zoom sc env = Inr (good, Some st)"
  shows "\<exists>more. scroll_calls st = [2, 2, 2, - 2, - 2, - 2] @ more"
proof -
  from calibrate_zoom_Inr [OF assms] obtain current_image st1 where
    loop: "test_zoom_levels sc env 0 [(1, 2), (2, 2), (3, 2), (- 1, 2), (- 2, 2), (- 3, 2)]
             \<lparr>zoom_results = [(0, evaluate_quality env current_image)],
              best_quality = evaluate_quality env current_image, best_zoom_level = 0,
              optimal_zoom_level = 0, scroll_calls = []\<rparr> = Inr st1"
    and reset: "reset_and_apply_optimal_zoom env st1 (best_zoom_level st1) = Inr st"
    by blast
  from test_zoom_levels_scroll_calls [OF loop]
  have "scroll_calls st1 = [2, 2, 2, - 2, - 2, - 2]" by simp
  with reset_and_apply_scroll_calls [OF reset] show ?thesis by simp
qed

theorem zoom_tests_scroll_two_clicks_each_witness:
  "calibrate_zoom
     \<lparr>center_x = 800, center_y = 450, capture_size = (500, 400), effective_game_area = None\<rparr>
     \<lparr>running = True, moveTo = Inr (), window_valid = (\<lambda>i. True),
        moved = (\<lambda>i dx dy. i = 0 \<and> dx = 200), scroll = (\<lambda>i. Inr ()),
        scroll_reset = Inr (), scroll_apply = Inr (), screenshot = (\<lambda>i r. Inr []),
        screenshot_current = (\<lambda>r. Inr []), screenshot_final = (\<lambda>r. Inr []),
        evaluate_quality = (\<lambda>f. 0)\<rparr>
   = Inr (False, Some \<lparr>zoom_results = [(0, 0), (1, 0), (2, 0), (3, 0), (- 1, 0), (- 2, 0), (- 3, 0)],
                        best_quality = 0, best_zoom_level = 0, optimal_zoom_level = 0,
                        scroll_calls = [2, 2, 2, - 2, - 2, - 2]\<rparr>)"
proof -
  let ?sc = "\<lparr>center_x = 800, center_y = 450, capture_size = (500, 400),
              effective_game_area = None\<rparr>"
  let ?E = "\<lparr>running = True, moveTo = Inr (), window_valid = (\<lambda>i. True),
        moved = (\<lambda>i dx dy. i = 0 \<and> dx = 200), scroll = (\<lambda>i. Inr ()),
        scroll_reset = Inr (), scroll_apply = Inr (), screenshot = (\<lambda>i r. Inr []),
        screenshot_current = (\<lambda>r. Inr []), screenshot_final = (\<lambda>r. Inr []),
        evaluate_quality = (\<lambda>f. 0)\<rparr>"
  let ?st = "\<lparr>zoom_results = [(0, 0), (1, 0), (2, 0), (3, 0), (- 1, 0), (- 2, 0), (- 3, 0)],
              best_quality = 0, best_zoom_level = 0, optimal_zoom_level = 0,
              scroll_calls = [2, 2, 2, - 2, - 2, - 2]\<rparr>"
  have res: "calibrate_zoom ?sc ?E = Inr (False, Some ?st)"
    by code_simp
  from zoom_tests_scroll_two_clicks_each [OF res] obtain more where
    "scroll_calls ?st = [2, 2, 2, - 2, - 2, - 2] @ more" ..
  with res show ?thesis by simp
qed


section \<open>Rounding to binary64\<close>
















section \<open>Quality score\<close>

























end
